theory Spec2Isabelle
  imports Complex_Main "HOL-Library.Word" "HOL-Library.AList" "HOL-Library.Code_Target_Numeral"
begin

section \<open>The file-carving engine of RSN (file\_carving.cpp)\<close>

text \<open>
  A shallow embedding of \<^verbatim>\<open>rsn::core::FileCarvingEngine\<close>: the signature
  catalogue, the registry operations, the placeholder scan driver and the two static
  matching helpers \<^verbatim>\<open>MatchesSignature\<close> and \<^verbatim>\<open>FindFooter\<close>.
\<close>

subsection \<open>Data model\<close>

type_synonym byte = "8 word"
type_synonym size_t = "64 word"
type_synonym uint64_t = "64 word"

text \<open>
  Modelled from the spec: the declaration of \<^verbatim>\<open>FileSignature\<close> lives in
  \<^verbatim>\<open>core/file_carving.h\<close>. The fields and their order are fixed by the
  aggregate initialisers of the catalogue and by the unit test, which names
  \<^verbatim>\<open>file_type\<close>, \<^verbatim>\<open>extension\<close>, \<^verbatim>\<open>header\<close>,
  \<^verbatim>\<open>max_file_size\<close> and \<^verbatim>\<open>has_footer\<close>; the size cap holds values up to
  \<^verbatim>\<open>4ULL * 1024 * 1024 * 1024\<close> and is taken as a 64-bit unsigned integer.
\<close>

record FileSignature =
  file_type :: string
  extension :: string
  header :: "byte list"
  footer :: "byte list"
  max_file_size :: uint64_t
  has_footer :: bool

text \<open>
  Modelled from the spec: \<^verbatim>\<open>CarvingStats\<close> is declared in the same header. Its
  four fields are initialised by \<^verbatim>\<open>{0, 0, 0, 0.0}\<close>; the three counters are counts
  and the scan time is a floating-point number of seconds that the code only ever sets to
  \<^verbatim>\<open>0.0\<close>.
\<close>

record CarvingStats =
  bytes_scanned :: nat
  files_found :: nat
  files_carved :: nat
  scan_time_seconds :: real

text \<open>
  Modelled from the spec: the member \<^verbatim>\<open>signatures_\<close> is a map from
  \<^verbatim>\<open>file_type\<close> to \<^verbatim>\<open>FileSignature\<close>, written with
  \<^verbatim>\<open>signatures_[key] = value\<close> and traversed with a range-for over its pairs. It is
  an association list here: assigning to a key that is present replaces the entry in
  place, assigning to a new key adds an entry. The order of traversal is that of first
  registration; no property below depends on it.
\<close>

record FileCarvingEngine =
  signatures :: "(string \<times> FileSignature) list"
  max_scan_size :: uint64_t
  stats :: CarvingStats

text \<open>
  The byte sources and output artifacts the process can reach, by path. The engine takes a
  device path and an output directory; what is stored under them is part of the world the
  call runs in.
\<close>

type_synonym file_system = "(string \<times> byte list) list"

datatype error = OutOfBoundsRead

subsection \<open>The catalogue of signatures\<close>

definition JPEG :: FileSignature where
  "JPEG = \<lparr>file_type = ''JPEG Image'', extension = ''.jpg'',
     header = [0xFF, 0xD8, 0xFF], footer = [0xFF, 0xD9],
     max_file_size = 10 * 1024 * 1024, has_footer = True\<rparr>"

definition PNG :: FileSignature where
  "PNG = \<lparr>file_type = ''PNG Image'', extension = ''.png'',
     header = [0x89, 0x50, 0x4E, 0x47, 0x0D, 0x0A, 0x1A, 0x0A],
     footer = [0x49, 0x45, 0x4E, 0x44, 0xAE, 0x42, 0x60, 0x82],
     max_file_size = 50 * 1024 * 1024, has_footer = True\<rparr>"

definition PDF :: FileSignature where
  "PDF = \<lparr>file_type = ''PDF Document'', extension = ''.pdf'',
     header = [0x25, 0x50, 0x44, 0x46], footer = [0x25, 0x25, 0x45, 0x4F, 0x46],
     max_file_size = 100 * 1024 * 1024, has_footer = True\<rparr>"

definition ZIP :: FileSignature where
  "ZIP = \<lparr>file_type = ''ZIP Archive'', extension = ''.zip'',
     header = [0x50, 0x4B, 0x03, 0x04], footer = [0x50, 0x4B, 0x05, 0x06],
     max_file_size = 1024 * 1024 * 1024, has_footer = True\<rparr>"

definition MP3 :: FileSignature where
  "MP3 = \<lparr>file_type = ''MP3 Audio'', extension = ''.mp3'',
     header = [0xFF, 0xFB], footer = [],
     max_file_size = 50 * 1024 * 1024, has_footer = False\<rparr>"

definition DOCX :: FileSignature where
  "DOCX = \<lparr>file_type = ''Word Document'', extension = ''.docx'',
     header = [0x50, 0x4B, 0x03, 0x04], footer = [],
     max_file_size = 100 * 1024 * 1024, has_footer = False\<rparr>"

definition GIF :: FileSignature where
  "GIF = \<lparr>file_type = ''GIF Image'', extension = ''.gif'',
     header = [0x47, 0x49, 0x46, 0x38], footer = [0x00, 0x3B],
     max_file_size = 10 * 1024 * 1024, has_footer = True\<rparr>"

definition BMP :: FileSignature where
  "BMP = \<lparr>file_type = ''BMP Image'', extension = ''.bmp'',
     header = [0x42, 0x4D], footer = [],
     max_file_size = 50 * 1024 * 1024, has_footer = False\<rparr>"

definition MP4 :: FileSignature where
  "MP4 = \<lparr>file_type = ''MP4 Video'', extension = ''.mp4'',
     header = [0x00, 0x00, 0x00, 0x18, 0x66, 0x74, 0x79, 0x70], footer = [],
     max_file_size = 2 * 1024 * 1024 * 1024, has_footer = False\<rparr>"

definition AVI :: FileSignature where
  "AVI = \<lparr>file_type = ''AVI Video'', extension = ''.avi'',
     header = [0x52, 0x49, 0x46, 0x46], footer = [],
     max_file_size = 2 * 1024 * 1024 * 1024, has_footer = False\<rparr>"

definition MKV :: FileSignature where
  "MKV = \<lparr>file_type = ''Matroska Video'', extension = ''.mkv'',
     header = [0x1A, 0x45, 0xDF, 0xA3], footer = [],
     max_file_size = 4 * 1024 * 1024 * 1024, has_footer = False\<rparr>"

definition FLV :: FileSignature where
  "FLV = \<lparr>file_type = ''Flash Video'', extension = ''.flv'',
     header = [0x46, 0x4C, 0x56, 0x01], footer = [],
     max_file_size = 1024 * 1024 * 1024, has_footer = False\<rparr>"

definition MOV :: FileSignature where
  "MOV = \<lparr>file_type = ''QuickTime Video'', extension = ''.mov'',
     header = [0x00, 0x00, 0x00, 0x14, 0x66, 0x74, 0x79, 0x70, 0x71, 0x74], footer = [],
     max_file_size = 4 * 1024 * 1024 * 1024, has_footer = False\<rparr>"

definition WMV :: FileSignature where
  "WMV = \<lparr>file_type = ''Windows Media Video'', extension = ''.wmv'',
     header = [0x30, 0x26, 0xB2, 0x75, 0x8E, 0x66, 0xCF, 0x11], footer = [],
     max_file_size = 2 * 1024 * 1024 * 1024, has_footer = False\<rparr>"

definition RAR :: FileSignature where
  "RAR = \<lparr>file_type = ''RAR Archive'', extension = ''.rar'',
     header = [0x52, 0x61, 0x72, 0x21, 0x1A, 0x07], footer = [],
     max_file_size = 4 * 1024 * 1024 * 1024, has_footer = False\<rparr>"

definition GZIP :: FileSignature where
  "GZIP = \<lparr>file_type = ''GZIP Archive'', extension = ''.gz'',
     header = [0x1F, 0x8B, 0x08], footer = [],
     max_file_size = 1024 * 1024 * 1024, has_footer = False\<rparr>"

definition SEVENZ :: FileSignature where
  "SEVENZ = \<lparr>file_type = ''7-Zip Archive'', extension = ''.7z'',
     header = [0x37, 0x7A, 0xBC, 0xAF, 0x27, 0x1C], footer = [],
     max_file_size = 4 * 1024 * 1024 * 1024, has_footer = False\<rparr>"

definition TAR :: FileSignature where
  "TAR = \<lparr>file_type = ''TAR Archive'', extension = ''.tar'',
     header = [0x75, 0x73, 0x74, 0x61, 0x72], footer = [],
     max_file_size = 4 * 1024 * 1024 * 1024, has_footer = False\<rparr>"

definition BZIP2 :: FileSignature where
  "BZIP2 = \<lparr>file_type = ''BZIP2 Archive'', extension = ''.bz2'',
     header = [0x42, 0x5A, 0x68], footer = [],
     max_file_size = 1024 * 1024 * 1024, has_footer = False\<rparr>"

definition FLAC :: FileSignature where
  "FLAC = \<lparr>file_type = ''FLAC Audio'', extension = ''.flac'',
     header = [0x66, 0x4C, 0x61, 0x43], footer = [],
     max_file_size = 500 * 1024 * 1024, has_footer = False\<rparr>"

definition WAV :: FileSignature where
  "WAV = \<lparr>file_type = ''WAV Audio'', extension = ''.wav'',
     header = [0x52, 0x49, 0x46, 0x46], footer = [],
     max_file_size = 500 * 1024 * 1024, has_footer = False\<rparr>"

definition M4A :: FileSignature where
  "M4A = \<lparr>file_type = ''M4A Audio'', extension = ''.m4a'',
     header = [0x00, 0x00, 0x00, 0x20, 0x66, 0x74, 0x79, 0x70, 0x4D, 0x34, 0x41],
     footer = [], max_file_size = 200 * 1024 * 1024, has_footer = False\<rparr>"

definition OGG :: FileSignature where
  "OGG = \<lparr>file_type = ''OGG Audio'', extension = ''.ogg'',
     header = [0x4F, 0x67, 0x67, 0x53], footer = [],
     max_file_size = 200 * 1024 * 1024, has_footer = False\<rparr>"

definition WMA :: FileSignature where
  "WMA = \<lparr>file_type = ''Windows Media Audio'', extension = ''.wma'',
     header = [0x30, 0x26, 0xB2, 0x75, 0x8E, 0x66, 0xCF, 0x11], footer = [],
     max_file_size = 200 * 1024 * 1024, has_footer = False\<rparr>"

subsection \<open>Construction and the registry\<close>

definition zero_stats :: CarvingStats where
  "zero_stats = \<lparr>bytes_scanned = 0, files_found = 0, files_carved = 0,
     scan_time_seconds = 0\<rparr>"

text \<open>The constructor: an empty registry, a 1 TB scan limit and zeroed stats.\<close>

definition new_engine :: FileCarvingEngine where
  "new_engine = \<lparr>signatures = [], max_scan_size = 1024 * 1024 * 1024 * 1024,
     stats = zero_stats\<rparr>"

definition AddSignature :: "FileCarvingEngine \<Rightarrow> FileSignature \<Rightarrow> FileCarvingEngine" where
  "AddSignature e signature =
     e\<lparr>signatures := AList.update (file_type signature) signature (signatures e)\<rparr>"

text \<open>The twenty-four calls of \<^verbatim>\<open>LoadDefaultSignatures\<close>, in the order of the source.\<close>

definition default_signatures :: "FileSignature list" where
  "default_signatures =
     [JPEG, PNG, GIF, BMP,
      PDF, DOCX,
      ZIP, RAR, GZIP, SEVENZ, TAR, BZIP2,
      MP3, FLAC, WAV, M4A, OGG, WMA,
      MP4, AVI, MKV, FLV, MOV, WMV]"

definition LoadDefaultSignatures :: "FileCarvingEngine \<Rightarrow> FileCarvingEngine" where
  "LoadDefaultSignatures e = foldl AddSignature e default_signatures"

text \<open>\<^verbatim>\<open>Initialize\<close> loads the defaults, logs the count and returns true.\<close>

definition Initialize :: "FileCarvingEngine \<Rightarrow> bool \<times> FileCarvingEngine" where
  "Initialize e = (True, LoadDefaultSignatures e)"

definition GetSupportedFileTypes :: "FileCarvingEngine \<Rightarrow> string list" where
  "GetSupportedFileTypes e = map fst (signatures e)"

definition SetMaxScanSize :: "FileCarvingEngine \<Rightarrow> uint64_t \<Rightarrow> FileCarvingEngine" where
  "SetMaxScanSize e sz = e\<lparr>max_scan_size := sz\<rparr>"

definition GetStats :: "FileCarvingEngine \<Rightarrow> CarvingStats" where
  "GetStats e = stats e"

subsection \<open>The scan driver\<close>

text \<open>
  What a call of \<^verbatim>\<open>CarveFiles\<close> leaves behind: the count it returns, the
  engine after the call and the file system after the call.
\<close>

record CarveOutcome =
  returned :: uint64_t
  engine :: FileCarvingEngine
  files :: file_system

text \<open>
  \<^verbatim>\<open>CarveFiles\<close> logs a start message, assigns \<^verbatim>\<open>{0, 0, 0, 0.0}\<close> to the
  stats, logs a warning that carving is a placeholder and returns 0. It opens neither the
  device nor the output directory, so the file system comes back as it went in.
\<close>

definition CarveFiles ::
  "FileCarvingEngine \<Rightarrow> file_system \<Rightarrow> string \<Rightarrow> string \<Rightarrow> CarveOutcome" where
  "CarveFiles e fs device_path output_dir =
     \<lparr>returned = 0, engine = e\<lparr>stats := zero_stats\<rparr>, files = fs\<rparr>"

subsection \<open>The matcher\<close>

text \<open>
  \<^verbatim>\<open>MatchesSignature(data, size, signature)\<close> receives a raw pointer. The pointer
  is a window together with an offset into it; \<open>sz\<close> is what the caller says remains.
  \<^verbatim>\<open>memcmp\<close> compares \<^verbatim>\<open>signature.size()\<close> bytes from the offset on: a
  comparison of no bytes reads nothing and yields equality, a comparison that would leave
  the window is an out-of-bounds read.
\<close>

definition MatchesSignature ::
  "byte list \<Rightarrow> size_t \<Rightarrow> size_t \<Rightarrow> byte list \<Rightarrow> error + bool" where
  "MatchesSignature data off sz signature =
     (if unat sz < length signature then Inr False
      else if signature = [] then Inr True
      else if length data < unat off + length signature then Inl OutOfBoundsRead
      else Inr (take (length signature) (drop (unat off) data) = signature))"

text \<open>
  The loop of \<^verbatim>\<open>FindFooter\<close>, from index \<open>i\<close> on. The bound
  \<^verbatim>\<open>max_size - footer.size()\<close> and the remaining size \<^verbatim>\<open>max_size - i\<close> are
  unsigned 64-bit subtractions and wrap around.
\<close>

function FindFooter_loop ::
  "byte list \<Rightarrow> size_t \<Rightarrow> byte list \<Rightarrow> size_t \<Rightarrow> error + uint64_t" where
  "FindFooter_loop data max_size foot i =
     (if i < max_size - of_nat (length foot) then
        (case MatchesSignature data i (max_size - i) foot of
           Inl err \<Rightarrow> Inl err
         | Inr matched \<Rightarrow>
             if matched then Inr (i + of_nat (length foot))
             else FindFooter_loop data max_size foot (i + 1))
      else Inr 0)"
  by pat_completeness auto
termination
proof (relation "measure (\<lambda>(data, max_size, foot, i).
         unat (max_size - of_nat (length foot)) - unat i)")
  show "wf (measure (\<lambda>(data, max_size, foot, i).
         unat (max_size - of_nat (length foot)) - unat i))"
    by simp
next
  fix data :: "byte list" and max_size :: size_t and foot :: "byte list" and i :: size_t
  assume "i < max_size - of_nat (length foot)"
  then have below: "unat i < unat (max_size - of_nat (length foot))"
    by (simp add: word_less_nat_alt)
  moreover have "unat (i + 1) = Suc (unat i)"
  proof -
    have "unat (max_size - of_nat (length foot)) < 2 ^ 64"
      using unsigned_less [of "max_size - of_nat (length foot)"] by simp
    with below have "unat i + unat (1 :: size_t) < 2 ^ LENGTH(64)"
      by simp
    then have "unat (i + 1) = unat i + unat (1 :: size_t)"
      by (simp only: unat_add_lem)
    then show ?thesis by simp
  qed
  ultimately show "((data, max_size, foot, i + 1), (data, max_size, foot, i))
      \<in> measure (\<lambda>(data, max_size, foot, i).
           unat (max_size - of_nat (length foot)) - unat i)"
    by simp
qed

text \<open>The value 0 is the answer "not found".\<close>

definition FindFooter ::
  "byte list \<Rightarrow> size_t \<Rightarrow> size_t \<Rightarrow> byte list \<Rightarrow> error + uint64_t" where
  "FindFooter data start max_size foot =
     (if foot = [] then Inr 0 else FindFooter_loop data max_size foot start)"

subsection \<open>Concrete inputs\<close>

text \<open>
  The signature that the unit test \<^verbatim>\<open>AddSignature_IncreasesTypeCount\<close> registers;
  the footer it leaves default-constructed is empty.
\<close>

definition custom_sig :: FileSignature where
  "custom_sig = \<lparr>file_type = ''Custom Type'', extension = ''.cst'',
     header = [0x43, 0x53, 0x54], footer = [],
     max_file_size = 1024, has_footer = False\<rparr>"

text \<open>
  The test for a category word in a type name, as the unit tests write it:
  \<^verbatim>\<open>type.find(word) != std::string::npos\<close>.
\<close>

fun contains_str :: "string \<Rightarrow> string \<Rightarrow> bool" where
  "contains_str [] word = (word = [])"
| "contains_str (c # cs) word =
     (if take (length word) (c # cs) = word then True else contains_str cs word)"

text \<open>
  A signature that breaks every part of the invariant of the data model: the header is
  empty, the size cap does not exceed the header length, and a footer is announced but
  empty.
\<close>

definition headerless_sig :: FileSignature where
  "headerless_sig = \<lparr>file_type = ''Headerless'', extension = ''.bin'',
     header = [], footer = [], max_file_size = 0, has_footer = True\<rparr>"

text \<open>
  A device holding a JPEG header, two bytes of content and the JPEG footer, and nothing
  else.
\<close>

definition jpeg_source :: "byte list" where
  "jpeg_source = header JPEG @ [0x4A, 0x46] @ footer JPEG"

definition jpeg_world :: file_system where
  "jpeg_world = [(''/dev/sdb'', jpeg_source)]"

section \<open>Properties\<close>

subsection \<open>The registry\<close>

lemma types_AddSignature:
  "GetSupportedFileTypes (AddSignature e s) =
     (if file_type s \<in> set (GetSupportedFileTypes e) then GetSupportedFileTypes e
      else GetSupportedFileTypes e @ [file_type s])"
  by (simp add: GetSupportedFileTypes_def AddSignature_def update_keys)

lemma lookup_AddSignature:
  "map_of (signatures (AddSignature e s)) (file_type s) = Some s"
  by (simp add: AddSignature_def update_conv')

lemma types_foldl_AddSignature:
  "set (GetSupportedFileTypes (foldl AddSignature e sigs)) =
     set (GetSupportedFileTypes e) \<union> file_type ` set sigs"
  by (induction sigs arbitrary: e) (auto simp: types_AddSignature)

lemma distinct_foldl_AddSignature:
  "distinct (GetSupportedFileTypes e) \<Longrightarrow>
   distinct (GetSupportedFileTypes (foldl AddSignature e sigs))"
  by (induction sigs arbitrary: e) (auto simp: types_AddSignature)

lemmas catalogue_defs =
  JPEG_def PNG_def GIF_def BMP_def PDF_def DOCX_def ZIP_def RAR_def GZIP_def SEVENZ_def
  TAR_def BZIP2_def MP3_def FLAC_def WAV_def M4A_def OGG_def WMA_def MP4_def AVI_def
  MKV_def FLV_def MOV_def WMV_def

lemma default_types:
  "map file_type default_signatures =
     [''JPEG Image'', ''PNG Image'', ''GIF Image'', ''BMP Image'',
      ''PDF Document'', ''Word Document'',
      ''ZIP Archive'', ''RAR Archive'', ''GZIP Archive'', ''7-Zip Archive'',
      ''TAR Archive'', ''BZIP2 Archive'',
      ''MP3 Audio'', ''FLAC Audio'', ''WAV Audio'', ''M4A Audio'', ''OGG Audio'',
      ''Windows Media Audio'',
      ''MP4 Video'', ''AVI Video'', ''Matroska Video'', ''Flash Video'',
      ''QuickTime Video'', ''Windows Media Video'']"
  by (simp add: default_signatures_def catalogue_defs)

lemma distinct_default_types: "distinct (map file_type default_signatures)"
  unfolding default_types by simp

lemma fresh_types: "GetSupportedFileTypes new_engine = []"
  by (simp add: GetSupportedFileTypes_def new_engine_def)

lemma loaded_set:
  "set (GetSupportedFileTypes (LoadDefaultSignatures e)) =
     set (GetSupportedFileTypes e) \<union> set (map file_type default_signatures)"
  by (simp add: LoadDefaultSignatures_def types_foldl_AddSignature)

lemma loaded_distinct:
  "distinct (GetSupportedFileTypes (LoadDefaultSignatures new_engine))"
  unfolding LoadDefaultSignatures_def
  by (rule distinct_foldl_AddSignature) (simp add: fresh_types)

lemma loaded_length:
  "length (GetSupportedFileTypes (LoadDefaultSignatures new_engine)) = 24"
proof -
  let ?types = "GetSupportedFileTypes (LoadDefaultSignatures new_engine)"
  have "length ?types = card (set ?types)"
    using loaded_distinct by (simp add: distinct_card)
  also have "\<dots> = card (set (map file_type default_signatures))"
    by (simp only: loaded_set fresh_types) simp
  also have "\<dots> = length (map file_type default_signatures)"
    using distinct_default_types by (rule distinct_card)
  also have "\<dots> = 24"
    by (simp add: default_signatures_def)
  finally show ?thesis .
qed

text \<open>
  C7. Registering a signature whose \<open>file_type\<close> is not yet among the supported types
  makes the list of supported types longer by exactly one; registering a signature whose
  \<open>file_type\<close> is already there leaves the length as it was. This holds in every engine
  state.
\<close>

theorem AddSignature_type_count:
  "(file_type s \<notin> set (GetSupportedFileTypes e) \<longrightarrow>
      length (GetSupportedFileTypes (AddSignature e s)) =
        length (GetSupportedFileTypes e) + 1) \<and>
   (file_type s \<in> set (GetSupportedFileTypes e) \<longrightarrow>
      length (GetSupportedFileTypes (AddSignature e s)) =
        length (GetSupportedFileTypes e))"
  by (simp add: types_AddSignature)

theorem AddSignature_type_count_witness:
  "file_type custom_sig \<notin> set (GetSupportedFileTypes (LoadDefaultSignatures new_engine)) \<and>
   length (GetSupportedFileTypes
     (AddSignature (LoadDefaultSignatures new_engine) custom_sig)) = 25 \<and>
   file_type JPEG \<in> set (GetSupportedFileTypes (LoadDefaultSignatures new_engine)) \<and>
   length (GetSupportedFileTypes
     (AddSignature (LoadDefaultSignatures new_engine) JPEG)) = 24"
proof -
  let ?e = "LoadDefaultSignatures new_engine"
  have unseen: "file_type custom_sig \<notin> set (GetSupportedFileTypes ?e)"
    unfolding loaded_set fresh_types default_types by (simp add: custom_sig_def)
  have seen: "file_type JPEG \<in> set (GetSupportedFileTypes ?e)"
    unfolding loaded_set fresh_types default_types by (simp add: JPEG_def)
  from AddSignature_type_count [of custom_sig ?e] unseen loaded_length
  have grown: "length (GetSupportedFileTypes (AddSignature ?e custom_sig)) = 25"
    by simp
  from AddSignature_type_count [of JPEG ?e] seen loaded_length
  have same: "length (GetSupportedFileTypes (AddSignature ?e JPEG)) = 24"
    by simp
  from unseen grown seen same show ?thesis by blast
qed

text \<open>
  C8. On a freshly constructed engine, \<open>LoadDefaultSignatures\<close> leaves a list of
  supported types without duplicates that holds exactly the \<open>file_type\<close> names of the
  signatures it registers; the list is as long as the number of \<open>AddSignature\<close> calls,
  which is 24.
\<close>

theorem LoadDefaultSignatures_types:
  "distinct (GetSupportedFileTypes (LoadDefaultSignatures new_engine)) \<and>
   set (GetSupportedFileTypes (LoadDefaultSignatures new_engine)) =
     set (map file_type default_signatures) \<and>
   length (GetSupportedFileTypes (LoadDefaultSignatures new_engine)) =
     length default_signatures \<and>
   length default_signatures = 24"
proof -
  have s: "set (GetSupportedFileTypes (LoadDefaultSignatures new_engine)) =
      set (map file_type default_signatures)"
    by (simp only: loaded_set fresh_types) simp
  have n: "length default_signatures = 24"
    by (simp add: default_signatures_def)
  from loaded_distinct s loaded_length n show ?thesis by simp
qed

lemma list_ex_default_type:
  assumes "t \<in> set (map file_type default_signatures)" and "P t"
  shows "list_ex P (GetSupportedFileTypes (snd (Initialize e)))"
proof -
  have "t \<in> set (GetSupportedFileTypes (LoadDefaultSignatures e))"
    using assms(1) by (simp only: loaded_set) simp
  with assms(2) show ?thesis
    by (auto simp: Initialize_def list_ex_iff)
qed

text \<open>
  C9. After \<open>Initialize\<close>, whatever the engine held before, the supported types include
  a name containing the word Image, one containing Document, one containing Archive, one
  containing Audio and one containing Video: every one of the five categories is
  present.
\<close>

theorem Initialize_covers_categories:
  "list_ex (\<lambda>t. contains_str t ''Image'') (GetSupportedFileTypes (snd (Initialize e))) \<and>
   list_ex (\<lambda>t. contains_str t ''Document'') (GetSupportedFileTypes (snd (Initialize e))) \<and>
   list_ex (\<lambda>t. contains_str t ''Archive'') (GetSupportedFileTypes (snd (Initialize e))) \<and>
   list_ex (\<lambda>t. contains_str t ''Audio'') (GetSupportedFileTypes (snd (Initialize e))) \<and>
   list_ex (\<lambda>t. contains_str t ''Video'') (GetSupportedFileTypes (snd (Initialize e)))"
proof -
  have image: "list_ex (\<lambda>t. contains_str t ''Image'')
      (GetSupportedFileTypes (snd (Initialize e)))"
    by (rule list_ex_default_type [where t = "''JPEG Image''"])
      (simp_all add: default_types)
  have document: "list_ex (\<lambda>t. contains_str t ''Document'')
      (GetSupportedFileTypes (snd (Initialize e)))"
    by (rule list_ex_default_type [where t = "''PDF Document''"])
      (simp_all add: default_types)
  have archive: "list_ex (\<lambda>t. contains_str t ''Archive'')
      (GetSupportedFileTypes (snd (Initialize e)))"
    by (rule list_ex_default_type [where t = "''RAR Archive''"])
      (simp_all add: default_types)
  have audio: "list_ex (\<lambda>t. contains_str t ''Audio'')
      (GetSupportedFileTypes (snd (Initialize e)))"
    by (rule list_ex_default_type [where t = "''FLAC Audio''"])
      (simp_all add: default_types)
  have video: "list_ex (\<lambda>t. contains_str t ''Video'')
      (GetSupportedFileTypes (snd (Initialize e)))"
    by (rule list_ex_default_type [where t = "''MP4 Video''"])
      (simp_all add: default_types)
  from image document archive audio video show ?thesis by blast
qed

subsection \<open>The scan driver\<close>

text \<open>
  C5. Whatever the stats held before and whatever the arguments are, the stats of the
  engine that \<open>CarveFiles\<close> leaves behind read zero in all four fields: the assignment
  at the start of the run is the only write to them.
\<close>

theorem CarveFiles_resets_stats:
  "bytes_scanned (GetStats (engine (CarveFiles e fs device_path output_dir))) = 0 \<and>
   files_found (GetStats (engine (CarveFiles e fs device_path output_dir))) = 0 \<and>
   files_carved (GetStats (engine (CarveFiles e fs device_path output_dir))) = 0 \<and>
   scan_time_seconds (GetStats (engine (CarveFiles e fs device_path output_dir))) = 0"
  by (simp add: CarveFiles_def GetStats_def zero_stats_def)

text \<open>
  C10. \<open>CarveFiles\<close> leaves the registry and the scan limit as they were; in
  particular a limit set with \<open>SetMaxScanSize\<close> is still in force after the call.
\<close>

theorem CarveFiles_keeps_registry_and_limit:
  "signatures (engine (CarveFiles e fs device_path output_dir)) = signatures e \<and>
   max_scan_size (engine (CarveFiles e fs device_path output_dir)) = max_scan_size e \<and>
   max_scan_size (engine (CarveFiles (SetMaxScanSize e n) fs device_path output_dir)) = n"
  by (simp add: CarveFiles_def SetMaxScanSize_def)

text \<open>
  C1, as the code has it. \<open>CarveFiles\<close> is a placeholder: for every engine, every
  content of the device and every pair of paths it returns 0, reports no candidate
  (\<open>files_found\<close> is 0) and no carved file (\<open>files_carved\<close> is 0), and writes
  nothing.
\<close>

theorem CarveFiles_placeholder:
  "returned (CarveFiles e fs device_path output_dir) = 0 \<and>
   files_found (GetStats (engine (CarveFiles e fs device_path output_dir))) = 0 \<and>
   files_carved (GetStats (engine (CarveFiles e fs device_path output_dir))) = 0 \<and>
   files (CarveFiles e fs device_path output_dir) = fs"
  by (simp add: CarveFiles_def GetStats_def zero_stats_def)

text \<open>
  C1, as the claim states it, fails. The initialised engine has the JPEG signature
  registered, the device holds the JPEG header followed after two bytes by the JPEG
  footer, yet the run neither finds one candidate nor carves one file nor returns 1.
\<close>

theorem CarveFiles_jpeg_source_counterexample:
  "map_of (signatures (snd (Initialize new_engine))) (file_type JPEG) = Some JPEG \<and>
   map_of jpeg_world ''/dev/sdb'' = Some (header JPEG @ [0x4A, 0x46] @ footer JPEG) \<and>
   files_found (GetStats (engine
     (CarveFiles (snd (Initialize new_engine)) jpeg_world ''/dev/sdb'' ''/out''))) \<noteq> 1 \<and>
   files_carved (GetStats (engine
     (CarveFiles (snd (Initialize new_engine)) jpeg_world ''/dev/sdb'' ''/out''))) \<noteq> 1 \<and>
   returned (CarveFiles (snd (Initialize new_engine)) jpeg_world ''/dev/sdb'' ''/out'') \<noteq> 1"
proof -
  have registered:
    "map_of (signatures (snd (Initialize new_engine))) (file_type JPEG) = Some JPEG"
    by (simp add: Initialize_def LoadDefaultSignatures_def default_signatures_def
        AddSignature_def new_engine_def update_conv' catalogue_defs)
  have source: "map_of jpeg_world ''/dev/sdb'' = Some (header JPEG @ [0x4A, 0x46] @ footer JPEG)"
    by (simp add: jpeg_world_def jpeg_source_def)
  have outcome:
    "files_found (GetStats (engine
       (CarveFiles (snd (Initialize new_engine)) jpeg_world ''/dev/sdb'' ''/out''))) = 0"
    "files_carved (GetStats (engine
       (CarveFiles (snd (Initialize new_engine)) jpeg_world ''/dev/sdb'' ''/out''))) = 0"
    "returned (CarveFiles (snd (Initialize new_engine)) jpeg_world ''/dev/sdb'' ''/out'') = 0"
    by (simp_all add: CarveFiles_def GetStats_def zero_stats_def)
  from registered source outcome show ?thesis by simp
qed

subsection \<open>The matcher\<close>

text \<open>
  C4. With an empty footer \<open>FindFooter\<close> answers "not found" at once, for every
  window, start and limit; no byte of the window is read, so the answer is the same for
  the empty window.
\<close>

theorem FindFooter_empty_footer:
  "FindFooter data start max_size [] = Inr 0"
  by (simp add: FindFooter_def)

text \<open>Arithmetic of \<open>size_t\<close> that the loop relies on.\<close>

lemma unat_lt_size_t: "unat (w :: size_t) < 2 ^ 64"
  using unsigned_less [of w] by simp

lemma unat_of_nat_small:
  assumes "n \<le> unat (m :: size_t)"
  shows "unat (of_nat n :: size_t) = n"
proof -
  have "n < 2 ^ 64" using assms unat_lt_size_t [of m] by simp
  then show ?thesis by (simp add: unat_of_nat)
qed

lemma unat_bound_in_window:
  assumes "length foot \<le> unat (max_size :: size_t)"
  shows "unat (max_size - of_nat (length foot)) = unat max_size - length foot"
proof -
  have n: "unat (of_nat (length foot) :: size_t) = length foot"
    using assms by (rule unat_of_nat_small)
  then have "(of_nat (length foot) :: size_t) \<le> max_size"
    using assms by (simp add: word_le_nat_alt)
  then show ?thesis by (simp add: unat_sub n)
qed

lemma unat_succ_below:
  assumes "unat (i :: size_t) < unat (b :: size_t)"
  shows "unat (i + 1) = Suc (unat i)"
proof -
  have "unat i + unat (1 :: size_t) < 2 ^ LENGTH(64)"
    using assms unat_lt_size_t [of b] by simp
  then have "unat (i + 1) = unat i + unat (1 :: size_t)"
    by (simp only: unat_add_lem)
  then show ?thesis by simp
qed

lemma FindFooter_loop_in_window:
  assumes "unat max_size \<le> length data" and "foot \<noteq> []"
    and "length foot \<le> unat max_size"
  shows "FindFooter_loop data max_size foot i =
     (case find (\<lambda>j. take (length foot) (drop j data) = foot)
             [unat i ..< unat max_size - length foot] of
        None \<Rightarrow> Inr 0
      | Some j \<Rightarrow> Inr (of_nat (j + length foot)))"
  using assms
proof (induction data max_size foot i rule: FindFooter_loop.induct)
  case (1 data max_size foot i)
  have bound: "unat (max_size - of_nat (length foot)) = unat max_size - length foot"
    using "1.prems"(3) by (rule unat_bound_in_window)
  show ?case
  proof (cases "i < max_size - of_nat (length foot)")
    case False
    then have "\<not> unat i < unat max_size - length foot"
      by (simp add: word_less_nat_alt bound)
    with False show ?thesis
      by (subst FindFooter_loop.simps) simp
  next
    case True
    then have below: "unat i < unat max_size - length foot"
      by (simp add: word_less_nat_alt bound)
    then have le: "i \<le> max_size"
      by (simp add: word_le_nat_alt)
    have sz: "unat (max_size - i) = unat max_size - unat i"
      using le by (rule unat_sub)
    have m: "MatchesSignature data i (max_size - i) foot =
        Inr (take (length foot) (drop (unat i) data) = foot)"
      using below "1.prems" by (simp add: MatchesSignature_def sz)
    have range: "[unat i ..< unat max_size - length foot] =
        unat i # [Suc (unat i) ..< unat max_size - length foot]"
      using below by (simp add: upt_conv_Cons)
    show ?thesis
    proof (cases "take (length foot) (drop (unat i) data) = foot")
      case hit: True
      with True m range show ?thesis
        by (subst FindFooter_loop.simps) simp
    next
      case miss: False
      have next_i: "unat (i + 1) = Suc (unat i)"
        using below unat_succ_below [of i "max_size"] by simp
      have "FindFooter_loop data max_size foot (i + 1) =
          (case find (\<lambda>j. take (length foot) (drop j data) = foot)
                  [unat (i + 1) ..< unat max_size - length foot] of
             None \<Rightarrow> Inr 0
           | Some j \<Rightarrow> Inr (of_nat (j + length foot)))"
        using "1.IH" [OF True m] miss "1.prems" by simp
      with True m miss range next_i show ?thesis
        by (subst FindFooter_loop.simps) simp
    qed
  qed
qed


lemma unat_sub_size_t:
  "unat ((x :: size_t) - y) =
     (if unat y \<le> unat x then unat x - unat y else unat x + 2 ^ 64 - unat y)"
  using unat_sub_if_size [of x y] by (simp add: word_size)

lemma FindFooter_loop_short_window:
  assumes "length data = unat max_size" and "unat max_size < length foot"
    and "length foot < 2 ^ 64 - 1" and "unat i \<le> unat max_size + 1"
  shows "FindFooter_loop data max_size foot i = Inl OutOfBoundsRead"
  using assms
proof (induction data max_size foot i rule: FindFooter_loop.induct)
  case (1 data max_size foot i)
  have len: "unat (of_nat (length foot) :: size_t) = length foot"
    using "1.prems"(3) by (simp add: unat_of_nat)
  have bound: "unat (max_size - of_nat (length foot)) =
      unat max_size + 2 ^ 64 - length foot"
    using "1.prems"(2) by (simp add: unat_sub_size_t len)
  have running: "i < max_size - of_nat (length foot)"
    using "1.prems"(3,4) by (simp add: word_less_nat_alt bound)
  have nonempty: "foot \<noteq> []"
    using "1.prems"(2) by auto
  show ?case
  proof (cases "unat i \<le> unat max_size")
    case True
    then have "unat (max_size - i) < length foot"
      using "1.prems"(2) by (simp add: unat_sub_size_t)
    then have m: "MatchesSignature data i (max_size - i) foot = Inr False"
      by (simp add: MatchesSignature_def)
    have "unat i < unat (max_size - of_nat (length foot))"
      using running by (simp add: word_less_nat_alt)
    then have "unat (i + 1) = Suc (unat i)"
      by (rule unat_succ_below)
    with True have "unat (i + 1) \<le> unat max_size + 1"
      by simp
    with "1.IH" [OF running m] "1.prems"(1,2,3)
    have "FindFooter_loop data max_size foot (i + 1) = Inl OutOfBoundsRead"
      by simp
    with running m show ?thesis
      by (subst FindFooter_loop.simps) simp
  next
    case False
    with "1.prems"(4) have at: "unat i = unat max_size + 1"
      by simp
    then have "unat (max_size - i) = 2 ^ 64 - 1"
      by (simp add: unat_sub_size_t)
    then have big: "\<not> unat (max_size - i) < length foot"
      using "1.prems"(3) by simp
    have "length data < unat i + length foot"
      using at "1.prems"(1) by simp
    with big nonempty have "MatchesSignature data i (max_size - i) foot = Inl OutOfBoundsRead"
      by (simp add: MatchesSignature_def)
    with running show ?thesis
      by (subst FindFooter_loop.simps) simp
  qed
qed

text \<open>
  What the loop computes when the limit lies inside the window and the footer fits below
  the limit: the end of the first occurrence among the start positions from \<open>start\<close>
  up to, but not including, \<open>max_size - length foot\<close>. The last start position at
  which the footer would still end at the limit is not among them.
\<close>

lemma FindFooter_in_window:
  assumes "unat max_size \<le> length data" and "foot \<noteq> []"
    and "length foot \<le> unat max_size"
  shows "FindFooter data start max_size foot =
     (case find (\<lambda>j. take (length foot) (drop j data) = foot)
             [unat start ..< unat max_size - length foot] of
        None \<Rightarrow> Inr 0
      | Some j \<Rightarrow> Inr (of_nat (j + length foot)))"
proof -
  have "FindFooter data start max_size foot = FindFooter_loop data max_size foot start"
    using assms(2) by (simp only: FindFooter_def if_False)
  also have "\<dots> =
     (case find (\<lambda>j. take (length foot) (drop j data) = foot)
             [unat start ..< unat max_size - length foot] of
        None \<Rightarrow> Inr 0
      | Some j \<Rightarrow> Inr (of_nat (j + length foot)))"
    using assms by (rule FindFooter_loop_in_window)
  finally show ?thesis .
qed

text \<open>
  What the loop does on a window shorter than the footer, searched up to its length: the
  bound wraps around, every index up to the limit is rejected by the size check, and at
  the index after the limit the remaining size wraps around and the comparison leaves the
  window.
\<close>

lemma FindFooter_short_window:
  assumes "length data = unat max_size" and "unat max_size < length foot"
    and "length foot < 2 ^ 64 - 1" and "unat start \<le> unat max_size + 1"
  shows "FindFooter data start max_size foot = Inl OutOfBoundsRead"
proof -
  from assms(2) have "foot \<noteq> []" by auto
  then have "FindFooter data start max_size foot = FindFooter_loop data max_size foot start"
    by (simp only: FindFooter_def if_False)
  also have "\<dots> = Inl OutOfBoundsRead"
    using assms by (rule FindFooter_loop_short_window)
  finally show ?thesis .
qed

text \<open>
  C2, evaluated where it fails. A footer that ends exactly at the search limit is inside
  the searched range, but the loop stops one position short of it: the two-byte window
  that is the JPEG footer, and the window with one byte before that footer, both searched
  from 0 up to their length, give "not found" instead of 2 and 3. One position earlier
  the footer is found. Lemma \<open>FindFooter_in_window\<close> shows the rule behind it: the
  start position \<open>max_size - length foot\<close> is never tried.
\<close>

theorem FindFooter_misses_footer_at_limit:
  "FindFooter [0xFF, 0xD9] 0 2 [0xFF, 0xD9] = Inr 0 \<and>
   FindFooter [0x00, 0xFF, 0xD9] 0 3 [0xFF, 0xD9] = Inr 0 \<and>
   FindFooter [0x00, 0xFF, 0xD9, 0x00] 0 4 [0xFF, 0xD9] = Inr 3"
  by code_simp

text \<open>
  C3, evaluated where it fails. On a window of one byte, searched from 0 up to its length
  1 for the two-byte JPEG footer, the bound \<open>max_size - footer.size()\<close> wraps around;
  at index 2 the remaining size \<open>max_size - i\<close> wraps around as well, the size check
  passes and the comparison reads beyond the window. The same happens on the empty
  window with a one-byte footer, and by lemma \<open>FindFooter_short_window\<close> on every
  window shorter than the footer.
\<close>

theorem FindFooter_tiny_window_reads_outside:
  "FindFooter [0x00] 0 1 [0xFF, 0xD9] = Inl OutOfBoundsRead \<and>
   FindFooter [] 0 0 [0xFF] = Inl OutOfBoundsRead"
  by code_simp

text \<open>
  C6, as the code has it. Registration stores any signature unchecked, and matching looks
  at the header bytes alone: when \<open>sz\<close> is no more than what the window holds from the
  offset on, no byte outside the window is read and the answer is true exactly when at
  least as many bytes as the header has remain and they equal the header. The size cap
  and the footer fields play no part, and a signature with an empty header matches at
  every position.
\<close>

theorem MatchesSignature_header_only:
  "map_of (signatures (AddSignature e s)) (file_type s) = Some s \<and>
   (unat off + unat sz \<le> length data \<longrightarrow>
      MatchesSignature data off sz (header s) =
        Inr (length (header s) \<le> unat sz \<and>
             take (length (header s)) (drop (unat off) data) = header s)) \<and>
   (header s = [] \<longrightarrow> MatchesSignature data off sz (header s) = Inr True)"
  by (auto simp: lookup_AddSignature MatchesSignature_def)

theorem MatchesSignature_header_only_witness:
  "unat (0 :: size_t) + unat (1 :: size_t) \<le> length [0x41 :: byte] \<and>
   header headerless_sig = [] \<and>
   map_of (signatures (AddSignature new_engine headerless_sig)) (file_type headerless_sig) =
     Some headerless_sig \<and>
   MatchesSignature [0x41] 0 1 (header headerless_sig) = Inr True"
proof -
  have fits: "unat (0 :: size_t) + unat (1 :: size_t) \<le> length [0x41 :: byte]"
    by simp
  have empty: "header headerless_sig = []"
    by (simp add: headerless_sig_def)
  from MatchesSignature_header_only [of new_engine headerless_sig 0 1 "[0x41]"] fits empty
  show ?thesis by simp
qed

text \<open>
  C6, as the claim states it, fails. The signature \<open>headerless_sig\<close> violates the
  invariant, is registered all the same, and its header matches the one-byte window at
  offset 0 instead of matching nowhere.
\<close>

theorem MatchesSignature_empty_header_counterexample:
  "length (header headerless_sig) < 1 \<and>
   map_of (signatures (AddSignature new_engine headerless_sig)) ''Headerless'' =
     Some headerless_sig \<and>
   MatchesSignature [0x41] 0 1 (header headerless_sig) \<noteq> Inr False"
  by (simp add: headerless_sig_def AddSignature_def new_engine_def MatchesSignature_def)

end
